theory Spec2Isabelle
  imports Main "HOL-Library.Word"
begin

unbundle bit_operations_syntax

section \<open>Data model (main.go, lines 18-33)\<close>

text \<open>
  Go's \<open>int\<close> is taken at its width on the 64-bit targets (amd64, arm64): a 64-bit
  two's complement integer whose \<open>+\<close> wraps around. Go strings are byte sequences, and so
  are HOL strings.
\<close>

type_synonym go_int = "64 word"

record Block =
  Index :: go_int
  Timestamp :: string
  Data :: go_int
  Hash :: string
  PrevHash :: string

record Message =
  Data_msg :: go_int

section \<open>The conversion \<open>string(i)\<close> of an integer\<close>

text \<open>
  In \<open>GenerateHash\<close> the fields \<open>Index\<close> and \<open>Data\<close> are converted with Go's
  \<open>string(i)\<close>. On an integer this conversion does not print decimal digits: it yields the
  UTF-8 encoding of the code point \<open>i\<close>, and the encoding of U+FFFD for every \<open>i\<close> that is
  no valid code point (negative, above U+10FFFF, or a surrogate). \<open>encoderune\<close> follows
  the case order of the Go runtime's function of that name.
\<close>

definition runeError :: int where
  "runeError = 0xFFFD"

definition encoderune :: "int \<Rightarrow> string" where
  "encoderune r =
     (if 0 \<le> r \<and> r \<le> 0x7F then [char_of r]
      else if 0 \<le> r \<and> r \<le> 0x7FF then
        [char_of (0xC0 + r div 64), char_of (0x80 + r mod 64)]
      else if r < 0 \<or> 0x10FFFF < r \<or> (0xD800 \<le> r \<and> r \<le> 0xDFFF) then
        [char_of (0xE0 + runeError div 4096),
         char_of (0x80 + (runeError div 64) mod 64),
         char_of (0x80 + runeError mod 64)]
      else if r \<le> 0xFFFF then
        [char_of (0xE0 + r div 4096),
         char_of (0x80 + (r div 64) mod 64),
         char_of (0x80 + r mod 64)]
      else
        [char_of (0xF0 + r div 262144),
         char_of (0x80 + (r div 4096) mod 64),
         char_of (0x80 + (r div 64) mod 64),
         char_of (0x80 + r mod 64)])"

definition intstring :: "go_int \<Rightarrow> string" where
  "intstring v = encoderune (sint v)"

section \<open>SHA-256 and hexadecimal encoding (crypto/sha256, encoding/hex)\<close>

text \<open>
  The digest of the standard library, written out after FIPS 180-4: padding to a multiple
  of 64 bytes, sixteen big-endian words per block, the message schedule of 64 words and
  64 rounds of compression on eight working variables.
\<close>

type_synonym byte = "8 word"
type_synonym uint32 = "32 word"
type_synonym sha_state =
  "uint32 \<times> uint32 \<times> uint32 \<times> uint32 \<times> uint32 \<times> uint32 \<times> uint32 \<times> uint32"

definition rotr :: "nat \<Rightarrow> uint32 \<Rightarrow> uint32" where
  "rotr n x = drop_bit n x OR push_bit (32 - n) x"

definition Ch :: "uint32 \<Rightarrow> uint32 \<Rightarrow> uint32 \<Rightarrow> uint32" where
  "Ch x y z = (x AND y) XOR (NOT x AND z)"

definition Maj :: "uint32 \<Rightarrow> uint32 \<Rightarrow> uint32 \<Rightarrow> uint32" where
  "Maj x y z = (x AND y) XOR (x AND z) XOR (y AND z)"

definition bsig0 :: "uint32 \<Rightarrow> uint32" where
  "bsig0 x = rotr 2 x XOR rotr 13 x XOR rotr 22 x"

definition bsig1 :: "uint32 \<Rightarrow> uint32" where
  "bsig1 x = rotr 6 x XOR rotr 11 x XOR rotr 25 x"

definition ssig0 :: "uint32 \<Rightarrow> uint32" where
  "ssig0 x = rotr 7 x XOR rotr 18 x XOR drop_bit 3 x"

definition ssig1 :: "uint32 \<Rightarrow> uint32" where
  "ssig1 x = rotr 17 x XOR rotr 19 x XOR drop_bit 10 x"

text \<open>
  The round constants, eight rounds to a row: \<open>K_rows ! r\<close> holds the constants of
  the rounds \<open>8 * r\<close> to \<open>8 * r + 7\<close>.
\<close>

definition K_rounds_0_7 :: "uint32 list" where
  "K_rounds_0_7 =
     [0x428a2f98, 0x71374491, 0xb5c0fbcf, 0xe9b5dba5,
      0x3956c25b, 0x59f111f1, 0x923f82a4, 0xab1c5ed5]"

definition K_rounds_8_15 :: "uint32 list" where
  "K_rounds_8_15 =
     [0xd807aa98, 0x12835b01, 0x243185be, 0x550c7dc3,
      0x72be5d74, 0x80deb1fe, 0x9bdc06a7, 0xc19bf174]"

definition K_rounds_16_23 :: "uint32 list" where
  "K_rounds_16_23 =
     [0xe49b69c1, 0xefbe4786, 0x0fc19dc6, 0x240ca1cc,
      0x2de92c6f, 0x4a7484aa, 0x5cb0a9dc, 0x76f988da]"

definition K_rounds_24_31 :: "uint32 list" where
  "K_rounds_24_31 =
     [0x983e5152, 0xa831c66d, 0xb00327c8, 0xbf597fc7,
      0xc6e00bf3, 0xd5a79147, 0x06ca6351, 0x14292967]"

definition K_rounds_32_39 :: "uint32 list" where
  "K_rounds_32_39 =
     [0x27b70a85, 0x2e1b2138, 0x4d2c6dfc, 0x53380d13,
      0x650a7354, 0x766a0abb, 0x81c2c92e, 0x92722c85]"

definition K_rounds_40_47 :: "uint32 list" where
  "K_rounds_40_47 =
     [0xa2bfe8a1, 0xa81a664b, 0xc24b8b70, 0xc76c51a3,
      0xd192e819, 0xd6990624, 0xf40e3585, 0x106aa070]"

definition K_rounds_48_55 :: "uint32 list" where
  "K_rounds_48_55 =
     [0x19a4c116, 0x1e376c08, 0x2748774c, 0x34b0bcb5,
      0x391c0cb3, 0x4ed8aa4a, 0x5b9cca4f, 0x682e6ff3]"

definition K_rounds_56_63 :: "uint32 list" where
  "K_rounds_56_63 =
     [0x748f82ee, 0x78a5636f, 0x84c87814, 0x8cc70208,
      0x90befffa, 0xa4506ceb, 0xbef9a3f7, 0xc67178f2]"

definition K_rows :: "uint32 list list" where
  "K_rows =
     [K_rounds_0_7, K_rounds_8_15, K_rounds_16_23, K_rounds_24_31,
      K_rounds_32_39, K_rounds_40_47, K_rounds_48_55, K_rounds_56_63]"

definition K256 :: "uint32 list" where
  "K256 = concat K_rows"

definition init_state :: sha_state where
  "init_state =
    (0x6a09e667, 0xbb67ae85, 0x3c6ef372, 0xa54ff53a, 0x510e527f, 0x9b05688c, 0x1f83d9ab, 0x5be0cd19)"

definition be64 :: "64 word \<Rightarrow> byte list" where
  "be64 w = map (\<lambda>i. ucast (drop_bit (8 * (7 - i)) w)) [0..<8]"

definition be32 :: "uint32 \<Rightarrow> byte list" where
  "be32 w = [ucast (drop_bit 24 w), ucast (drop_bit 16 w), ucast (drop_bit 8 w), ucast w]"

definition sha_pad :: "byte list \<Rightarrow> byte list" where
  "sha_pad msg =
     (let len = length msg;
          t = (if len mod 64 < 56 then 56 - len mod 64 else 64 + 56 - len mod 64)
      in msg @ (0x80 # replicate (t - 1) 0) @ be64 (push_bit 3 (of_nat len)))"

definition sha_blocks :: "byte list \<Rightarrow> byte list list" where
  "sha_blocks bs = map (\<lambda>i. take 64 (drop (64 * i) bs)) [0..<length bs div 64]"

definition word_at :: "byte list \<Rightarrow> nat \<Rightarrow> uint32" where
  "word_at blk j =
     push_bit 24 (ucast (blk ! (4 * j))) OR push_bit 16 (ucast (blk ! (4 * j + 1))) OR
     push_bit 8 (ucast (blk ! (4 * j + 2))) OR ucast (blk ! (4 * j + 3))"

definition schedule :: "byte list \<Rightarrow> uint32 list" where
  "schedule blk =
     fold (\<lambda>t w. w @ [ssig1 (w ! (t - 2)) + w ! (t - 7) + ssig0 (w ! (t - 15)) + w ! (t - 16)])
       [16..<64] (map (word_at blk) [0..<16])"

fun sha_round :: "uint32 \<times> uint32 \<Rightarrow> sha_state \<Rightarrow> sha_state" where
  "sha_round (k, w) (a, b, c, d, e, f, g, h) =
     (let t1 = h + bsig1 e + Ch e f g + k + w;
          t2 = bsig0 a + Maj a b c
      in (t1 + t2, a, b, c, d + t1, e, f, g))"

fun add_state :: "sha_state \<Rightarrow> sha_state \<Rightarrow> sha_state" where
  "add_state (a, b, c, d, e, f, g, h) (a', b', c', d', e', f', g', h') =
     (a + a', b + b', c + c', d + d', e + e', f + f', g + g', h + h')"

definition compress :: "byte list \<Rightarrow> sha_state \<Rightarrow> sha_state" where
  "compress blk H = add_state H (fold sha_round (zip K256 (schedule blk)) H)"

fun digest_bytes :: "sha_state \<Rightarrow> byte list" where
  "digest_bytes (a, b, c, d, e, f, g, h) =
     be32 a @ be32 b @ be32 c @ be32 d @ be32 e @ be32 f @ be32 g @ be32 h"

definition sha256 :: "string \<Rightarrow> byte list" where
  "sha256 record = digest_bytes (fold compress (sha_blocks (sha_pad (map of_char record))) init_state)"

definition hextable :: string where
  "hextable = ''0123456789abcdef''"

definition EncodeToString :: "byte list \<Rightarrow> string" where
  "EncodeToString src =
     concat (map (\<lambda>v. [hextable ! unat (drop_bit 4 v), hextable ! unat (v AND 0x0f)]) src)"

section \<open>Hashing, construction and validation of blocks (main.go, lines 51-88)\<close>

definition GenerateHash :: "Block \<Rightarrow> string" where
  "GenerateHash block =
     (let record = intstring (Index block) @ Timestamp block @ intstring (Data block) @ PrevHash block
      in EncodeToString (sha256 record))"

text \<open>
  \<open>GenerateBlock\<close> reads the clock; the string of \<open>time.Now()\<close> is the parameter
  \<open>now\<close>. The second component is the error, which the source always returns as nil.
\<close>

datatype error = Error string

definition GenerateBlock :: "string \<Rightarrow> Block \<Rightarrow> go_int \<Rightarrow> Block \<times> error option" where
  "GenerateBlock now prevBlock data =
     (let newBlock = \<lparr>Index = 0, Timestamp = [], Data = 0, Hash = [], PrevHash = []\<rparr>;
          newBlock = newBlock\<lparr>Index := Index prevBlock + 1\<rparr>;
          newBlock = newBlock\<lparr>Timestamp := now\<rparr>;
          newBlock = newBlock\<lparr>Data := data\<rparr>;
          newBlock = newBlock\<lparr>PrevHash := Hash prevBlock\<rparr>;
          newBlock = newBlock\<lparr>Hash := GenerateHash newBlock\<rparr>
      in (newBlock, None))"

definition ValidateBlock :: "Block \<Rightarrow> Block \<Rightarrow> bool" where
  "ValidateBlock prevBlock newBlock =
     (if Index prevBlock + 1 \<noteq> Index newBlock then False
      else if Hash prevBlock \<noteq> PrevHash newBlock then False
      else if GenerateHash newBlock \<noteq> Hash newBlock then False
      else True)"

section \<open>The chain and the longest-chain rule (main.go, lines 32-33 and 90-95)\<close>

text \<open>
  The global slice \<open>Blockchain\<close> is passed in and returned. \<open>ReplaceChain\<close> has no
  result in the source; its value here is \<open>()\<close>, next to the chain it leaves behind.
\<close>

definition ReplaceChain :: "Block list \<Rightarrow> Block list \<Rightarrow> unit \<times> Block list" where
  "ReplaceChain newBlocks Blockchain =
     (if length newBlocks > length Blockchain then ((), newBlocks) else ((), Blockchain))"

section \<open>Initialisation (main.go, lines 41-46)\<close>

text \<open>
  The goroutine of \<open>main\<close> builds the genesis block from the clock's string \<open>t\<close> and
  appends it to the chain, which starts as the nil slice.
\<close>

definition genesisBlock :: "string \<Rightarrow> Block" where
  "genesisBlock t = \<lparr>Index = 0, Timestamp = t, Data = 0, Hash = [], PrevHash = []\<rparr>"

definition genesis_routine :: "string \<Rightarrow> Block list \<Rightarrow> Block list" where
  "genesis_routine t Blockchain = Blockchain @ [genesisBlock t]"

definition initial_chain :: "string \<Rightarrow> Block list" where
  "initial_chain t = genesis_routine t []"

section \<open>The HTTP handlers (main.go, lines 140-179)\<close>

text \<open>
  A response is its status code and its body. \<open>json.MarshalIndent\<close> is modelled up to the
  document it renders: an object with the exported fields of the value, in the order of
  their declaration. The request body \<open>r.Body\<close>, which the handler echoes when decoding
  fails, has no exported field.
\<close>

datatype json = JNumber int | JString string | JObject "(string \<times> json) list"

datatype payload = PBlock Block | PMessage Message | PBody

datatype body = JSON json | Text string

record response =
  status :: nat
  content :: body

definition StatusCreated :: nat where
  "StatusCreated = 201"

definition StatusBadRequest :: nat where
  "StatusBadRequest = 400"

definition StatusInternalServerError :: nat where
  "StatusInternalServerError = 500"

definition Block_json :: "Block \<Rightarrow> json" where
  "Block_json b =
     JObject [(''Index'', JNumber (sint (Index b))), (''Timestamp'', JString (Timestamp b)),
              (''Data'', JNumber (sint (Data b))), (''Hash'', JString (Hash b)),
              (''PrevHash'', JString (PrevHash b))]"

fun MarshalIndent :: "payload \<Rightarrow> error + json" where
  "MarshalIndent (PBlock b) = Inr (Block_json b)"
| "MarshalIndent (PMessage m) = Inr (JObject [(''Data'', JNumber (sint (Data_msg m)))])"
| "MarshalIndent PBody = Inr (JObject [])"

definition RespondWithJSON :: "nat \<Rightarrow> payload \<Rightarrow> response" where
  "RespondWithJSON code p =
     (case MarshalIndent p of
        Inl err \<Rightarrow>
          \<lparr>status = StatusInternalServerError, content = Text ''HTTP 500: Internal Server Error''\<rparr>
      | Inr doc \<Rightarrow> \<lparr>status = code, content = JSON doc\<rparr>)"

text \<open>
  Reading \<open>Blockchain[len(Blockchain)-1]\<close> on an empty slice panics; the handler then
  sends no response of its own and the chain stays as it was.
\<close>

datatype panic = IndexOutOfRange

text \<open>
  Lines 158-164 of \<open>WriteBlockchain\<close>: the candidate \<open>newBlock\<close> is validated against the
  last block, appended through \<open>ReplaceChain\<close> when it is valid, and answered with
  \<open>StatusCreated\<close> in either case.
\<close>

definition WriteBlockchain_append :: "Block \<Rightarrow> Block list \<Rightarrow> (panic + response) \<times> Block list" where
  "WriteBlockchain_append newBlock Blockchain =
     (if Blockchain = [] then (Inl IndexOutOfRange, Blockchain)
      else
        (let Blockchain' =
           (if ValidateBlock (last Blockchain) newBlock
            then snd (ReplaceChain (Blockchain @ [newBlock]) Blockchain)
            else Blockchain)
         in (Inr (RespondWithJSON StatusCreated (PBlock newBlock)), Blockchain')))"

text \<open>
  The whole handler. \<open>decoded\<close> is the outcome of \<open>decoder.Decode\<close>: \<open>None\<close> when the
  request body is no JSON message; \<open>now\<close> is the clock's string.
\<close>

definition WriteBlockchain ::
  "Message option \<Rightarrow> string \<Rightarrow> Block list \<Rightarrow> (panic + response) \<times> Block list" where
  "WriteBlockchain decoded now Blockchain =
     (case decoded of
        None \<Rightarrow> (Inr (RespondWithJSON StatusBadRequest PBody), Blockchain)
      | Some m \<Rightarrow>
          if Blockchain = [] then (Inl IndexOutOfRange, Blockchain)
          else
            (case GenerateBlock now (last Blockchain) (Data_msg m) of
               (newBlock, Some err) \<Rightarrow>
                 (Inr (RespondWithJSON StatusInternalServerError (PMessage m)), Blockchain)
             | (newBlock, None) \<Rightarrow> WriteBlockchain_append newBlock Blockchain))"

text \<open>
  The source takes no lock, and the server runs every request in a goroutine of its own, so
  the lines of two handlers may run in turn, each reading the global \<open>Blockchain\<close> as it
  is at that moment. The steps of one handler that read or write the chain are line 152
  (build the candidate from the last block), the condition of line 158, line 159
  (\<open>append(Blockchain, newBlock)\<close>) and line 160 (\<open>ReplaceChain\<close>, above).
\<close>

definition WriteBlockchain_generate ::
  "Message \<Rightarrow> string \<Rightarrow> Block list \<Rightarrow> panic + Block \<times> error option" where
  "WriteBlockchain_generate m now Blockchain =
     (if Blockchain = [] then Inl IndexOutOfRange
      else Inr (GenerateBlock now (last Blockchain) (Data_msg m)))"

definition WriteBlockchain_validate :: "Block \<Rightarrow> Block list \<Rightarrow> panic + bool" where
  "WriteBlockchain_validate newBlock Blockchain =
     (if Blockchain = [] then Inl IndexOutOfRange
      else Inr (ValidateBlock (last Blockchain) newBlock))"

definition WriteBlockchain_extend :: "Block \<Rightarrow> Block list \<Rightarrow> Block list" where
  "WriteBlockchain_extend newBlock Blockchain = Blockchain @ [newBlock]"

text \<open>
  The serial runs: the chain starts as the nil slice, the genesis routine runs once, and
  requests are handled one at a time, each handler finishing before the next step starts.
  The flag tells whether the genesis routine has run. Runs in which the lines of two
  handlers interleave are not described by this relation.
\<close>

inductive serial_reachable :: "bool \<Rightarrow> Block list \<Rightarrow> bool" where
  start: "serial_reachable False []"
| genesis: "serial_reachable False c \<Longrightarrow> serial_reachable True (genesis_routine t c)"
| request:
    "serial_reachable d c \<Longrightarrow> WriteBlockchain decoded now c = (out, c') \<Longrightarrow> serial_reachable d c'"

section \<open>Concrete blocks used in the examples\<close>

text \<open>
  \<open>block1\<close> and \<open>block1_rival\<close> are the candidates that two requests, with payloads 100
  and 200, build on line 152 when both find the genesis block \<open>block0\<close> at the end of the
  chain.
\<close>

definition block0 :: Block where
  "block0 = genesisBlock ''2018-03-12 10:00:00 +0000 UTC''"

definition block1 :: Block where
  "block1 = fst (GenerateBlock ''2018-03-12 10:05:00 +0000 UTC'' block0 100)"

definition block1_rival :: Block where
  "block1_rival = fst (GenerateBlock ''2018-03-12 10:05:01 +0000 UTC'' block0 200)"

definition block_big :: Block where
  "block_big = fst (GenerateBlock ''2018-03-12 10:05:00 +0000 UTC'' block0 2000000)"

definition block_big_tampered :: Block where
  "block_big_tampered = block_big\<lparr>Data := 3000000\<rparr>"

definition chain1 :: "Block list" where
  "chain1 =
     snd (WriteBlockchain (Some \<lparr>Data_msg = 100\<rparr>) ''2018-03-12 10:05:00 +0000 UTC''
            (initial_chain ''2018-03-12 10:00:00 +0000 UTC''))"

section \<open>The digest model against a test vector\<close>

text \<open>The digest of \<open>abc\<close> given in FIPS 180-4.\<close>

lemma sha256_abc:
  "EncodeToString (sha256 ''abc'') =
     ''ba7816bf8f01cfea414140de5dae2223b00361a396177a9cb410ff61f20015ad''"
  by code_simp

section \<open>Auxiliary facts\<close>

lemma GenerateHash_ignores_Hash: "GenerateHash (b\<lparr>Hash := h\<rparr>) = GenerateHash b"
  by (simp add: GenerateHash_def)

lemma GenerateBlock_fields:
  "Index (fst (GenerateBlock now P d)) = Index P + 1"
  "Timestamp (fst (GenerateBlock now P d)) = now"
  "Data (fst (GenerateBlock now P d)) = d"
  "PrevHash (fst (GenerateBlock now P d)) = Hash P"
  "snd (GenerateBlock now P d) = None"
  by (simp_all add: GenerateBlock_def)

lemma GenerateBlock_Hash:
  "Hash (fst (GenerateBlock now P d)) = GenerateHash (fst (GenerateBlock now P d))"
  by (simp add: GenerateBlock_def GenerateHash_def)

lemma GenerateBlock_valid: "ValidateBlock P (fst (GenerateBlock now P d))"
  using GenerateBlock_Hash [of now P d]
  by (simp add: ValidateBlock_def GenerateBlock_fields)

lemma length_EncodeToString: "length (EncodeToString bs) = 2 * length bs"
  by (induction bs) (simp_all add: EncodeToString_def)

lemma length_digest_bytes: "length (digest_bytes s) = 32"
  by (cases s rule: digest_bytes.cases) (simp add: be32_def)

lemma length_sha256: "length (sha256 r) = 32"
  by (simp add: sha256_def length_digest_bytes)

lemma length_GenerateHash: "length (GenerateHash b) = 64"
  by (simp add: GenerateHash_def length_EncodeToString length_sha256)

lemma GenerateHash_not_empty: "GenerateHash b \<noteq> []"
  using length_GenerateHash [of b] by auto

lemma block0_fields: "Index block0 = 0" "Hash block0 = []" "PrevHash block0 = []"
  by (simp_all add: block0_def genesisBlock_def)

lemma block1_valid: "ValidateBlock block0 block1"
  unfolding block1_def by (rule GenerateBlock_valid)

lemma block1_fields:
  "Index block1 = 1" "PrevHash block1 = []" "Hash block1 = GenerateHash block1"
  unfolding block1_def
  by (simp_all add: GenerateBlock_fields block0_fields GenerateBlock_Hash [symmetric])

lemma block1_rival_fields:
  "Index block1_rival = 1" "PrevHash block1_rival = []"
  unfolding block1_rival_def
  by (simp_all add: GenerateBlock_fields block0_fields)

lemma block1_rival_valid: "ValidateBlock block0 block1_rival"
  unfolding block1_rival_def by (rule GenerateBlock_valid)

lemma block1_stale: "\<not> ValidateBlock block1_rival block1"
  by (simp add: ValidateBlock_def block1_fields block1_rival_fields)

lemma block1_rival_unlinked:
  "Index block1_rival \<noteq> Index block1 + 1" "PrevHash block1_rival \<noteq> Hash block1"
  using GenerateHash_not_empty [of block1]
  by (simp_all add: block1_fields block1_rival_fields)

lemma intstring_above_max: "0x10FFFF < sint v \<Longrightarrow> intstring v = encoderune (-1)"
  by (simp add: intstring_def encoderune_def)

lemma intstring_2000000: "intstring 2000000 = encoderune (-1)"
  by (rule intstring_above_max) simp

lemma intstring_3000000: "intstring 3000000 = encoderune (-1)"
  by (rule intstring_above_max) simp

lemma block_big_fields:
  "Index block_big = 1" "Timestamp block_big_tampered = Timestamp block_big"
  "Data block_big = 2000000" "PrevHash block_big = []"
  "Hash block_big = GenerateHash block_big"
  unfolding block_big_def block_big_tampered_def
  by (simp_all add: GenerateBlock_fields block0_fields GenerateBlock_Hash [symmetric])

lemma GenerateHash_cong:
  "intstring (Index a) = intstring (Index b) \<Longrightarrow> Timestamp a = Timestamp b \<Longrightarrow>
   intstring (Data a) = intstring (Data b) \<Longrightarrow> PrevHash a = PrevHash b \<Longrightarrow>
   GenerateHash a = GenerateHash b"
  by (simp add: GenerateHash_def)

lemma GenerateHash_tampered: "GenerateHash block_big_tampered = GenerateHash block_big"
proof (rule GenerateHash_cong)
  show "intstring (Index block_big_tampered) = intstring (Index block_big)"
    by (simp add: block_big_tampered_def)
  show "Timestamp block_big_tampered = Timestamp block_big"
    by (simp add: block_big_tampered_def)
  show "intstring (Data block_big_tampered) = intstring (Data block_big)"
    by (simp add: block_big_tampered_def block_big_fields intstring_2000000 intstring_3000000)
  show "PrevHash block_big_tampered = PrevHash block_big"
    by (simp add: block_big_tampered_def)
qed

lemma GenerateBlock_pair: "GenerateBlock now P d = (fst (GenerateBlock now P d), None)"
  by (simp add: prod_eq_iff GenerateBlock_fields)

lemma RespondWithJSON_Block:
  "RespondWithJSON code (PBlock b) = \<lparr>status = code, content = JSON (Block_json b)\<rparr>"
  by (simp add: RespondWithJSON_def)

lemma WriteBlockchain_append_valid:
  "Blockchain \<noteq> [] \<Longrightarrow> ValidateBlock (last Blockchain) b \<Longrightarrow>
   WriteBlockchain_append b Blockchain =
     (Inr (RespondWithJSON StatusCreated (PBlock b)), Blockchain @ [b])"
  by (simp add: WriteBlockchain_append_def ReplaceChain_def)

lemma WriteBlockchain_append_invalid:
  "Blockchain \<noteq> [] \<Longrightarrow> \<not> ValidateBlock (last Blockchain) b \<Longrightarrow>
   WriteBlockchain_append b Blockchain =
     (Inr (RespondWithJSON StatusCreated (PBlock b)), Blockchain)"
  by (simp add: WriteBlockchain_append_def)

lemma WriteBlockchain_Some:
  "Blockchain \<noteq> [] \<Longrightarrow>
   WriteBlockchain (Some m) now Blockchain =
     (Inr (RespondWithJSON StatusCreated
            (PBlock (fst (GenerateBlock now (last Blockchain) (Data_msg m))))),
      Blockchain @ [fst (GenerateBlock now (last Blockchain) (Data_msg m))])"
proof -
  assume ne: "Blockchain \<noteq> []"
  define nb where "nb = fst (GenerateBlock now (last Blockchain) (Data_msg m))"
  have g: "GenerateBlock now (last Blockchain) (Data_msg m) = (nb, None)"
    unfolding nb_def by (rule GenerateBlock_pair)
  have v: "ValidateBlock (last Blockchain) nb"
    unfolding nb_def by (rule GenerateBlock_valid)
  have "WriteBlockchain (Some m) now Blockchain = WriteBlockchain_append nb Blockchain"
    using ne by (simp add: WriteBlockchain_def g)
  also have "\<dots> = (Inr (RespondWithJSON StatusCreated (PBlock nb)), Blockchain @ [nb])"
    using ne v by (rule WriteBlockchain_append_valid)
  finally show ?thesis
    unfolding nb_def .
qed

lemma WriteBlockchain_chain:
  assumes "WriteBlockchain decoded now c = (out, c')"
  shows "c' = c \<or> (c \<noteq> [] \<and> (\<exists>b. c' = c @ [b] \<and> ValidateBlock (last c) b))"
proof (cases decoded)
  case None
  with assms show ?thesis by (simp add: WriteBlockchain_def)
next
  case (Some m)
  show ?thesis
  proof (cases "c = []")
    case True
    with assms Some show ?thesis by (simp add: WriteBlockchain_def)
  next
    case False
    with assms Some WriteBlockchain_Some [OF False, of m now]
    show ?thesis using GenerateBlock_valid by auto
  qed
qed

lemma initial_chain_eq: "initial_chain t = [genesisBlock t]"
  by (simp add: initial_chain_def genesis_routine_def)

lemma WriteBlockchain_nil: "WriteBlockchain decoded now [] = (out, c') \<Longrightarrow> c' = []"
  by (cases decoded) (auto simp add: WriteBlockchain_def)

lemma serial_before_genesis: "serial_reachable d c \<Longrightarrow> \<not> d \<Longrightarrow> c = []"
proof (induction rule: serial_reachable.induct)
  case start
  show ?case by simp
next
  case (genesis c t)
  then show ?case by simp
next
  case (request d c decoded now out c')
  then have "c = []" by simp
  with request.hyps(2) show ?case by (simp add: WriteBlockchain_nil)
qed

lemma serial_after_genesis: "serial_reachable d c \<Longrightarrow> d \<Longrightarrow> c \<noteq> []"
proof (induction rule: serial_reachable.induct)
  case start
  then show ?case by simp
next
  case (genesis c t)
  show ?case by (simp add: genesis_routine_def)
next
  case (request d c decoded now out c')
  then have "c \<noteq> []" by simp
  with WriteBlockchain_chain [OF request.hyps(2)] show ?case by auto
qed

lemma serial_valid_links:
  "serial_reachable d c \<Longrightarrow> \<forall>i. Suc i < length c \<longrightarrow> ValidateBlock (c ! i) (c ! Suc i)"
proof (induction rule: serial_reachable.induct)
  case start
  show ?case by simp
next
  case (genesis c t)
  from serial_before_genesis [OF genesis.hyps] have "c = []" by simp
  then show ?case by (simp add: genesis_routine_def)
next
  case (request d c decoded now out c')
  from WriteBlockchain_chain [OF request.hyps(2)]
  show ?case
  proof
    assume "c' = c"
    with request.IH show ?thesis by simp
  next
    assume "c \<noteq> [] \<and> (\<exists>b. c' = c @ [b] \<and> ValidateBlock (last c) b)"
    then obtain b where ne: "c \<noteq> []" and c': "c' = c @ [b]" and v: "ValidateBlock (last c) b"
      by blast
    show ?thesis
    proof (intro allI impI)
      fix i assume i: "Suc i < length c'"
      show "ValidateBlock (c' ! i) (c' ! Suc i)"
      proof (cases "Suc i < length c")
        case True
        with request.IH show ?thesis by (simp add: c' nth_append)
      next
        case False
        with i have len: "Suc i = length c" by (simp add: c')
        then have "i = length c - 1" by simp
        with ne have "c ! i = last c" by (simp add: last_conv_nth)
        with len v show ?thesis by (simp add: c' nth_append)
      qed
    qed
  qed
qed

text \<open>
  The handler is its four steps run in a row on one chain.
\<close>

lemma WriteBlockchain_by_steps:
  "WriteBlockchain (Some m) now c =
     (case WriteBlockchain_generate m now c of
        Inl p \<Rightarrow> (Inl p, c)
      | Inr (newBlock, Some err) \<Rightarrow>
          (Inr (RespondWithJSON StatusInternalServerError (PMessage m)), c)
      | Inr (newBlock, None) \<Rightarrow>
          (case WriteBlockchain_validate newBlock c of
             Inl p \<Rightarrow> (Inl p, c)
           | Inr ok \<Rightarrow>
               (Inr (RespondWithJSON StatusCreated (PBlock newBlock)),
                if ok then snd (ReplaceChain (WriteBlockchain_extend newBlock c) c) else c)))"
  by (simp add: WriteBlockchain_def WriteBlockchain_append_def WriteBlockchain_generate_def
      WriteBlockchain_validate_def WriteBlockchain_extend_def
      split: prod.split option.split)

lemma ValidateBlock_checks:
  "ValidateBlock P B \<longleftrightarrow>
     Index B = Index P + 1 \<and> PrevHash B = Hash P \<and> GenerateHash B = Hash B"
  by (auto simp add: ValidateBlock_def)

lemma chain1_eq: "chain1 = [block0, block1]"
  by (simp add: chain1_def initial_chain_eq WriteBlockchain_Some block0_def block1_def)

lemma serial_reachable_chain1: "serial_reachable True chain1"
  unfolding chain1_def initial_chain_def
  by (rule serial_reachable.request [OF serial_reachable.genesis [OF serial_reachable.start]])
    (rule prod.collapse [symmetric])

lemma chain_rival_eq:
  "snd (WriteBlockchain (Some \<lparr>Data_msg = 200\<rparr>) ''2018-03-12 10:05:01 +0000 UTC'' [block0]) =
     [block0, block1_rival]"
  by (simp add: WriteBlockchain_Some block1_rival_def)

lemma tampered_Index_rejected:
  "ValidateBlock P B \<Longrightarrow> i \<noteq> Index B \<Longrightarrow> \<not> ValidateBlock P (B\<lparr>Index := i\<rparr>)"
  by (simp add: ValidateBlock_checks)

lemma tampered_PrevHash_rejected:
  "ValidateBlock P B \<Longrightarrow> h \<noteq> PrevHash B \<Longrightarrow> \<not> ValidateBlock P (B\<lparr>PrevHash := h\<rparr>)"
  by (simp add: ValidateBlock_checks)

section \<open>The claims\<close>

text \<open>
  Claim C1. For every block \<open>P\<close>, every payload \<open>p\<close> and every reading \<open>now\<close> of the
  clock, the block that \<open>GenerateBlock\<close> returns for \<open>P\<close> and \<open>p\<close> is accepted by
  \<open>ValidateBlock\<close> as the successor of \<open>P\<close>.
\<close>

theorem GenerateBlock_passes_ValidateBlock:
  "ValidateBlock P (fst (GenerateBlock now P p)) = True"
  using GenerateBlock_Hash [of now P p]
  by (simp add: ValidateBlock_def GenerateBlock_fields)

text \<open>
  Three runs of the handler against the claim that a candidate is appended and reported
  true when it is valid, and left out and reported false when it is not.
  \<^item> A request that arrives while the chain is still the nil slice panics on line 152:
    there is no tail to validate against and nothing is answered.
  \<^item> A stale candidate: one request builds \<open>block1\<close> from the tail \<open>block0\<close>; before it
    reaches line 158 a second request is handled and appends \<open>block1_rival\<close>. The first
    candidate then fails validation and the chain is unchanged, but the answer is 201 with
    the candidate, the same status as for the candidate that was appended.
  \<^item> A lost update: both candidates pass line 158 against \<open>block0\<close> and both run line 159
    on the chain \<open>[block0]\<close>; the first handler's \<open>ReplaceChain\<close> stores its chain, and
    the second handler's \<open>ReplaceChain\<close> then finds its chain no longer, so a valid
    candidate is not appended.
\<close>

theorem stale_and_racing_candidates:
  "fst (WriteBlockchain (Some \<lparr>Data_msg = 100\<rparr>) ''2018-03-12 10:05:00 +0000 UTC'' []) =
     Inl IndexOutOfRange \<and>
   WriteBlockchain_generate \<lparr>Data_msg = 100\<rparr> ''2018-03-12 10:05:00 +0000 UTC'' [block0] =
     Inr (block1, None) \<and>
   snd (WriteBlockchain (Some \<lparr>Data_msg = 200\<rparr>) ''2018-03-12 10:05:01 +0000 UTC'' [block0]) =
     [block0, block1_rival] \<and>
   WriteBlockchain_validate block1 [block0, block1_rival] = Inr False \<and>
   WriteBlockchain_append block1 [block0, block1_rival] =
     (Inr \<lparr>status = 201, content = JSON (Block_json block1)\<rparr>, [block0, block1_rival]) \<and>
   WriteBlockchain_append block1_rival [block0] =
     (Inr \<lparr>status = 201, content = JSON (Block_json block1_rival)\<rparr>, [block0, block1_rival]) \<and>
   WriteBlockchain_validate block1 [block0] = Inr True \<and>
   WriteBlockchain_validate block1_rival [block0] = Inr True \<and>
   ReplaceChain (WriteBlockchain_extend block1 [block0]) [block0] = ((), [block0, block1]) \<and>
   ReplaceChain (WriteBlockchain_extend block1_rival [block0]) [block0, block1] =
     ((), [block0, block1])"
proof -
  have nil: "fst (WriteBlockchain (Some \<lparr>Data_msg = 100\<rparr>) ''2018-03-12 10:05:00 +0000 UTC'' []) =
      Inl IndexOutOfRange"
    by (simp add: WriteBlockchain_def)
  have gen: "WriteBlockchain_generate \<lparr>Data_msg = 100\<rparr> ''2018-03-12 10:05:00 +0000 UTC'' [block0] =
      Inr (block1, None)"
    by (simp add: WriteBlockchain_generate_def block1_def GenerateBlock_pair [symmetric])
  have stale: "WriteBlockchain_validate block1 [block0, block1_rival] = Inr False"
    using block1_stale by (simp add: WriteBlockchain_validate_def)
  have rejected: "WriteBlockchain_append block1 [block0, block1_rival] =
      (Inr \<lparr>status = 201, content = JSON (Block_json block1)\<rparr>, [block0, block1_rival])"
    using block1_stale
    by (simp add: WriteBlockchain_append_invalid RespondWithJSON_Block StatusCreated_def)
  have accepted: "WriteBlockchain_append block1_rival [block0] =
      (Inr \<lparr>status = 201, content = JSON (Block_json block1_rival)\<rparr>, [block0, block1_rival])"
    using block1_rival_valid
    by (simp add: WriteBlockchain_append_valid RespondWithJSON_Block StatusCreated_def)
  have both: "WriteBlockchain_validate block1 [block0] = Inr True"
    "WriteBlockchain_validate block1_rival [block0] = Inr True"
    using block1_valid block1_rival_valid by (simp_all add: WriteBlockchain_validate_def)
  have lost: "ReplaceChain (WriteBlockchain_extend block1 [block0]) [block0] = ((), [block0, block1])"
    "ReplaceChain (WriteBlockchain_extend block1_rival [block0]) [block0, block1] =
       ((), [block0, block1])"
    by (simp_all add: ReplaceChain_def WriteBlockchain_extend_def)
  from nil gen chain_rival_eq stale rejected accepted both lost show ?thesis
    by (intro conjI)
qed

text \<open>
  Claim C2, as the code has it. When the chain is not empty and lines 158 to 164 of
  \<open>WriteBlockchain\<close> run with no step of another handler in between, the candidate is
  validated against the last block of the chain: a valid candidate is appended, an invalid
  one leaves the chain unchanged, and in both cases no boolean is returned and the answer
  is the status 201 with the candidate as its body.
\<close>

theorem append_path_effect:
  "(Blockchain \<noteq> [] \<and> ValidateBlock (last Blockchain) candidate \<longrightarrow>
      WriteBlockchain_append candidate Blockchain =
        (Inr \<lparr>status = 201, content = JSON (Block_json candidate)\<rparr>, Blockchain @ [candidate])) \<and>
   (Blockchain \<noteq> [] \<and> \<not> ValidateBlock (last Blockchain) rejected \<longrightarrow>
      WriteBlockchain_append rejected Blockchain =
        (Inr \<lparr>status = 201, content = JSON (Block_json rejected)\<rparr>, Blockchain))"
  by (simp add: WriteBlockchain_append_valid WriteBlockchain_append_invalid
      RespondWithJSON_Block StatusCreated_def)

text \<open>
  Both branches at the chain \<open>[block0, block1_rival]\<close>: a candidate generated from
  \<open>block1_rival\<close> is appended, the stale candidate \<open>block1\<close> is not.
\<close>

theorem append_path_effect_witness:
  "[block0, block1_rival] \<noteq> [] \<and>
   ValidateBlock (last [block0, block1_rival])
     (fst (GenerateBlock ''2018-03-12 10:06:00 +0000 UTC'' block1_rival 300)) \<and>
   WriteBlockchain_append
       (fst (GenerateBlock ''2018-03-12 10:06:00 +0000 UTC'' block1_rival 300))
       [block0, block1_rival] =
     (Inr \<lparr>status = 201,
           content = JSON (Block_json
             (fst (GenerateBlock ''2018-03-12 10:06:00 +0000 UTC'' block1_rival 300)))\<rparr>,
      [block0, block1_rival] @
        [fst (GenerateBlock ''2018-03-12 10:06:00 +0000 UTC'' block1_rival 300)]) \<and>
   \<not> ValidateBlock (last [block0, block1_rival]) block1 \<and>
   WriteBlockchain_append block1 [block0, block1_rival] =
     (Inr \<lparr>status = 201, content = JSON (Block_json block1)\<rparr>, [block0, block1_rival])"
  using append_path_effect [of "[block0, block1_rival]"
      "fst (GenerateBlock ''2018-03-12 10:06:00 +0000 UTC'' block1_rival 300)" block1]
    GenerateBlock_valid [of block1_rival "''2018-03-12 10:06:00 +0000 UTC''" 300] block1_stale
  by simp

text \<open>
  Claim C3. \<open>ValidateBlock\<close> returns true exactly when the candidate's index is the
  predecessor's plus one, its \<open>PrevHash\<close> is the predecessor's \<open>Hash\<close>, and its stored
  \<open>Hash\<close> is the hash recomputed from its fields; it returns false as soon as one of
  the three fails. Both blocks are passed by value, so the function is a function of the
  two values and changes neither.
\<close>

theorem ValidateBlock_three_checks:
  "ValidateBlock predecessor candidate =
     (Index candidate = Index predecessor + 1 \<and> PrevHash candidate = Hash predecessor \<and>
      GenerateHash candidate = Hash candidate)"
  by (auto simp add: ValidateBlock_def)

text \<open>
  Claim C4 fails on the payload. \<open>block_big\<close> is the generated successor of the genesis
  block with payload 2000000; changing only its payload to 3000000 gives a block that
  \<open>ValidateBlock\<close> still accepts, because \<open>string(block.Data)\<close> maps both payloads to
  the encoding of U+FFFD and the hashed record is the same.
\<close>

theorem tampered_payload_still_validates:
  "ValidateBlock block0 block_big \<and> Data block_big_tampered \<noteq> Data block_big \<and>
   Index block_big_tampered = Index block_big \<and>
   Timestamp block_big_tampered = Timestamp block_big \<and>
   Hash block_big_tampered = Hash block_big \<and>
   PrevHash block_big_tampered = PrevHash block_big \<and>
   ValidateBlock block0 block_big_tampered"
proof -
  have v: "ValidateBlock block0 block_big"
    unfolding block_big_def by (rule GenerateBlock_valid)
  have d: "Data block_big_tampered \<noteq> Data block_big"
    by (simp add: block_big_tampered_def block_big_fields)
  have same: "Index block_big_tampered = Index block_big"
    "Hash block_big_tampered = Hash block_big"
    "PrevHash block_big_tampered = PrevHash block_big"
    by (simp_all add: block_big_tampered_def)
  have "ValidateBlock block0 block_big_tampered"
    using v by (simp add: ValidateBlock_checks same GenerateHash_tampered)
  with v d same block_big_fields(2) show ?thesis by simp
qed

text \<open>
  \<open>ReplaceChain\<close> returns no verdict: a candidate that is too short and a candidate that
  is long enough give the same result value, and only the chain tells them apart.
\<close>

theorem ReplaceChain_reports_nothing:
  "fst (ReplaceChain [block0] [block0, block1]) = fst (ReplaceChain [block0, block1] [block0]) \<and>
   snd (ReplaceChain [block0] [block0, block1]) = [block0, block1] \<and>
   snd (ReplaceChain [block0, block1] [block0]) = [block0, block1]"
  by (simp add: ReplaceChain_def)

text \<open>
  Claim C5, as the code has it. \<open>ReplaceChain\<close> returns no value. A candidate chain no
  longer than the current chain leaves the chain unchanged; a candidate chain strictly
  longer than the current chain becomes the chain.
\<close>

theorem ReplaceChain_longest_wins:
  "(length shorter \<le> length Blockchain \<longrightarrow> ReplaceChain shorter Blockchain = ((), Blockchain)) \<and>
   (length Blockchain < length longer \<longrightarrow> ReplaceChain longer Blockchain = ((), longer))"
  by (simp add: ReplaceChain_def)

text \<open>
  Both cases at the chain of the genesis block: a candidate of equal length is ignored, a
  candidate of two blocks replaces it.
\<close>

theorem ReplaceChain_longest_wins_witness:
  "length [block0] \<le> length [block0] \<and> ReplaceChain [block0] [block0] = ((), [block0]) \<and>
   length [block0] < length [block0, block1] \<and>
   ReplaceChain [block0, block1] [block0] = ((), [block0, block1])"
  using ReplaceChain_longest_wins [of "[block0]" "[block0]" "[block0, block1]"]
  by simp

text \<open>
  Claim C6. \<open>GenerateBlock\<close> always returns a nil error, and a block whose index is the
  predecessor's plus one, whose payload is the given one, whose \<open>PrevHash\<close> is the
  predecessor's \<open>Hash\<close> and whose \<open>Hash\<close> is \<open>GenerateHash\<close> of the block itself.
\<close>

theorem GenerateBlock_result:
  "snd (GenerateBlock now P p) = None \<and>
   Index (fst (GenerateBlock now P p)) = Index P + 1 \<and>
   Data (fst (GenerateBlock now P p)) = p \<and>
   PrevHash (fst (GenerateBlock now P p)) = Hash P \<and>
   Hash (fst (GenerateBlock now P p)) = GenerateHash (fst (GenerateBlock now P p))"
  by (simp add: GenerateBlock_def GenerateHash_def)

text \<open>
  Two handlers whose lines interleave leave a chain with a broken link. Both build their
  candidate from the tail \<open>block0\<close> (line 152) and both pass line 158 against it. The first
  runs lines 159 and 160 and the chain becomes \<open>[block0, block1]\<close>. The second then runs
  line 159, which reads the chain as it is now, and line 160, which accepts the longer
  chain: the third block has the index of the second, and its \<open>PrevHash\<close> is not the
  second block's \<open>Hash\<close>.
\<close>

theorem interleaved_handlers_break_link:
  "WriteBlockchain_generate \<lparr>Data_msg = 100\<rparr> ''2018-03-12 10:05:00 +0000 UTC'' [block0] =
     Inr (block1, None) \<and>
   WriteBlockchain_generate \<lparr>Data_msg = 200\<rparr> ''2018-03-12 10:05:01 +0000 UTC'' [block0] =
     Inr (block1_rival, None) \<and>
   WriteBlockchain_validate block1 [block0] = Inr True \<and>
   WriteBlockchain_validate block1_rival [block0] = Inr True \<and>
   ReplaceChain (WriteBlockchain_extend block1 [block0]) [block0] = ((), [block0, block1]) \<and>
   ReplaceChain (WriteBlockchain_extend block1_rival [block0, block1]) [block0, block1] =
     ((), [block0, block1, block1_rival]) \<and>
   Index ([block0, block1, block1_rival] ! 2) \<noteq> Index ([block0, block1, block1_rival] ! 1) + 1 \<and>
   PrevHash ([block0, block1, block1_rival] ! 2) \<noteq> Hash ([block0, block1, block1_rival] ! 1)"
proof -
  have gen: "WriteBlockchain_generate \<lparr>Data_msg = 100\<rparr> ''2018-03-12 10:05:00 +0000 UTC'' [block0] =
      Inr (block1, None)"
    "WriteBlockchain_generate \<lparr>Data_msg = 200\<rparr> ''2018-03-12 10:05:01 +0000 UTC'' [block0] =
      Inr (block1_rival, None)"
    by (simp_all add: WriteBlockchain_generate_def block1_def block1_rival_def
        GenerateBlock_pair [symmetric])
  have both: "WriteBlockchain_validate block1 [block0] = Inr True"
    "WriteBlockchain_validate block1_rival [block0] = Inr True"
    using block1_valid block1_rival_valid by (simp_all add: WriteBlockchain_validate_def)
  have run: "ReplaceChain (WriteBlockchain_extend block1 [block0]) [block0] = ((), [block0, block1])"
    "ReplaceChain (WriteBlockchain_extend block1_rival [block0, block1]) [block0, block1] =
       ((), [block0, block1, block1_rival])"
    by (simp_all add: ReplaceChain_def WriteBlockchain_extend_def)
  have broken: "Index ([block0, block1, block1_rival] ! 2) \<noteq>
      Index ([block0, block1, block1_rival] ! 1) + 1"
    "PrevHash ([block0, block1, block1_rival] ! 2) \<noteq> Hash ([block0, block1, block1_rival] ! 1)"
    using block1_rival_unlinked by simp_all
  from gen both run broken show ?thesis
    by (intro conjI)
qed

text \<open>
  Claim C7, as the code has it. In every chain state of a serial run, where the genesis
  routine and the requests to \<open>WriteBlockchain\<close> run one at a time, every block after the
  first has the index of its predecessor plus one, the predecessor's \<open>Hash\<close> as its
  \<open>PrevHash\<close>, and a stored \<open>Hash\<close> equal to \<open>GenerateHash\<close> of itself.
\<close>

theorem serial_chain_linked:
  assumes "serial_reachable d c" and "Suc i < length c"
  shows "Index (c ! Suc i) = Index (c ! i) + 1 \<and> PrevHash (c ! Suc i) = Hash (c ! i) \<and>
         Hash (c ! Suc i) = GenerateHash (c ! Suc i)"
proof -
  from serial_valid_links [OF assms(1)] assms(2)
  have "ValidateBlock (c ! i) (c ! Suc i)" by blast
  then show ?thesis by (simp add: ValidateBlock_checks)
qed

text \<open>
  The chain after the genesis routine and one request with payload 100 belongs to a serial
  run and has two blocks, which are linked.
\<close>

theorem serial_chain_linked_witness:
  "serial_reachable True chain1 \<and> Suc 0 < length chain1 \<and>
   Index (chain1 ! Suc 0) = Index (chain1 ! 0) + 1 \<and>
   PrevHash (chain1 ! Suc 0) = Hash (chain1 ! 0) \<and>
   Hash (chain1 ! Suc 0) = GenerateHash (chain1 ! Suc 0)"
proof -
  have len: "Suc 0 < length chain1" by (simp add: chain1_eq)
  from serial_chain_linked [OF serial_reachable_chain1 len] serial_reachable_chain1 len
  show ?thesis by simp
qed

text \<open>
  Claim C8. After initialisation the chain consists of exactly one block, the genesis
  block, whose index is 0 and whose \<open>PrevHash\<close> is the empty string.
\<close>

theorem initial_chain_single_genesis:
  "initial_chain t = [genesisBlock t] \<and> length (initial_chain t) = 1 \<and>
   Index (genesisBlock t) = 0 \<and> PrevHash (genesisBlock t) = []"
  by (simp add: initial_chain_def genesis_routine_def genesisBlock_def)

text \<open>
  A decoded request that is handled while the chain is still the nil slice, before the
  genesis routine has appended its block, panics on line 152: no status and no block are
  answered, and the chain stays empty.
\<close>

theorem request_on_nil_chain_panics:
  "WriteBlockchain (Some \<lparr>Data_msg = 200\<rparr>) ''2018-03-12 10:05:01 +0000 UTC'' [] =
     (Inl IndexOutOfRange, [])"
  by (simp add: WriteBlockchain_def)

text \<open>
  Claim C9, as the code has it. On a chain that is not empty, the append path answers every
  candidate with status 201 and the candidate's JSON document, whether or not
  \<open>ValidateBlock\<close> accepts it, and so does \<open>WriteBlockchain\<close> for every decoded
  message: the response does not tell an accepted candidate from a rejected one.
\<close>

theorem WriteBlockchain_always_created:
  assumes "Blockchain \<noteq> []"
  shows "fst (WriteBlockchain_append newBlock Blockchain) =
           Inr \<lparr>status = 201, content = JSON (Block_json newBlock)\<rparr> \<and>
         fst (WriteBlockchain (Some m) now Blockchain) =
           Inr \<lparr>status = 201,
                content = JSON (Block_json (fst (GenerateBlock now (last Blockchain) (Data_msg m))))\<rparr>"
  using assms
  by (simp add: WriteBlockchain_Some WriteBlockchain_append_def RespondWithJSON_Block
      StatusCreated_def Let_def)

text \<open>
  At the chain \<open>[block0, block1_rival]\<close>, the stale candidate \<open>block1\<close>, which is
  rejected, and a request with payload 300 are both answered with 201.
\<close>

theorem WriteBlockchain_always_created_witness:
  "[block0, block1_rival] \<noteq> [] \<and>
   fst (WriteBlockchain_append block1 [block0, block1_rival]) =
     Inr \<lparr>status = 201, content = JSON (Block_json block1)\<rparr> \<and>
   fst (WriteBlockchain (Some \<lparr>Data_msg = 300\<rparr>) ''2018-03-12 10:06:00 +0000 UTC''
          [block0, block1_rival]) =
     Inr \<lparr>status = 201,
          content = JSON (Block_json (fst (GenerateBlock ''2018-03-12 10:06:00 +0000 UTC''
                                            (last [block0, block1_rival])
                                            (Data_msg \<lparr>Data_msg = 300\<rparr>))))\<rparr>"
proof -
  have ne: "[block0, block1_rival] \<noteq> []" by simp
  from WriteBlockchain_always_created [OF ne, of block1 "\<lparr>Data_msg = 300\<rparr>"
      "''2018-03-12 10:06:00 +0000 UTC''"] ne
  show ?thesis by blast
qed

text \<open>
  Claim C10. The genesis block's \<open>Hash\<close> is the empty string, which is not
  \<open>GenerateHash\<close> of the genesis block; the first block generated after it therefore
  has the empty string as its \<open>PrevHash\<close>, and it is still accepted by
  \<open>ValidateBlock\<close>, which compares the stored hash of the predecessor only.
\<close>

theorem genesis_Hash_empty_and_successor_valid:
  "Hash (genesisBlock t) = [] \<and> GenerateHash (genesisBlock t) \<noteq> Hash (genesisBlock t) \<and>
   PrevHash (fst (GenerateBlock now (genesisBlock t) p)) = [] \<and>
   ValidateBlock (genesisBlock t) (fst (GenerateBlock now (genesisBlock t) p))"
proof -
  have h: "Hash (genesisBlock t) = []" by (simp add: genesisBlock_def)
  have "GenerateHash (genesisBlock t) \<noteq> []" by (rule GenerateHash_not_empty)
  with h GenerateBlock_fields(4) [of now "genesisBlock t" p]
    GenerateBlock_valid [of "genesisBlock t" now p]
  show ?thesis by simp
qed

end
